theory Spec2Isabelle
  imports Main "HOL-Library.Word"
begin

section \<open>Data model of package hcaptcha\<close>

text \<open>
  Go strings are byte sequences: \<open>string\<close> (a list of 8-bit characters).
  \<open>url.Values\<close> is \<open>map[string][]string\<close>; it is kept as an association list whose
  first entry for a key is the map's entry, so that \<open>len(form) > 0\<close> is \<open>form \<noteq> []\<close>.
\<close>

type_synonym Values = "(string \<times> string list) list"

definition Values_Get :: "Values \<Rightarrow> string \<Rightarrow> string" where
  \<comment> \<open>\<open>url.Values.Get\<close>: the first value of the key, the empty string when there is none.\<close>
  "Values_Get v key =
     (case map_of v key of
        None \<Rightarrow> []
      | Some vs \<Rightarrow> (case vs of [] \<Rightarrow> [] | x # _ \<Rightarrow> x))"

definition Values_Add :: "Values \<Rightarrow> string \<Rightarrow> string \<Rightarrow> Values" where
  \<comment> \<open>\<open>url.Values.Add\<close>: \<open>v[key] = append(v[key], value)\<close>.\<close>
  "Values_Add v key val =
     (case map_of v key of
        None \<Rightarrow> v @ [(key, [val])]
      | Some _ \<Rightarrow> map (\<lambda>(k, vs). (k, if k = key then vs @ [val] else vs)) v)"

text \<open>The struct \<open>Response\<close>; its zero value is what a named result starts from.\<close>

record Response =
  ChallengeTS :: string
  Hostname :: string
  ErrorCodes :: "string list"
  Success :: bool
  Credit :: bool

definition Response_zero :: Response where
  "Response_zero =
     \<lparr>ChallengeTS = [], Hostname = [], ErrorCodes = [], Success = False, Credit = False\<rparr>"

section \<open>The JSON decoder used by VerifyToken\<close>

text \<open>
  \<open>json.Unmarshal(body, &response)\<close> belongs to Go's standard library. It is modelled
  after the library's documented behaviour, in the library's own two phases: the whole
  input is first checked against the JSON grammar (a byte-level state machine), and only
  a valid input is then stored into the struct, field by field.
\<close>

datatype json =
    JNull
  | JBool bool
  | JNumber string
  | JString string
  | JArray "json list"
  | JObject "(string \<times> json) list"

datatype token =
    TLBrace | TRBrace | TLBrack | TRBrack | TColon | TComma
  | TStr string | TNum string | TTrue | TFalse | TNull

subsection \<open>Bytes and runes\<close>

definition byte :: "char \<Rightarrow> nat" where
  "byte c = of_char c"

definition is_space :: "char \<Rightarrow> bool" where
  "is_space c = (byte c = 0x20 \<or> byte c = 0x09 \<or> byte c = 0x0D \<or> byte c = 0x0A)"

definition is_digit :: "char \<Rightarrow> bool" where
  "is_digit c = (0x30 \<le> byte c \<and> byte c \<le> 0x39)"

definition is_digit19 :: "char \<Rightarrow> bool" where
  "is_digit19 c = (0x31 \<le> byte c \<and> byte c \<le> 0x39)"

definition is_hex :: "char \<Rightarrow> bool" where
  "is_hex c = (is_digit c \<or> (0x61 \<le> byte c \<and> byte c \<le> 0x66) \<or> (0x41 \<le> byte c \<and> byte c \<le> 0x46))"

definition hexval :: "char \<Rightarrow> nat" where
  "hexval c =
     (if is_digit c then byte c - 0x30
      else if 0x61 \<le> byte c \<and> byte c \<le> 0x66 then byte c - 0x61 + 10
      else byte c - 0x41 + 10)"

definition RuneError :: nat where
  "RuneError = 0xFFFD"

definition EncodeRune :: "nat \<Rightarrow> string" where
  \<comment> \<open>\<open>utf8.EncodeRune\<close>: surrogates and values beyond U+10FFFF become U+FFFD.\<close>
  "EncodeRune r0 =
     (let r = (if (0xD800 \<le> r0 \<and> r0 < 0xE000) \<or> 0x10FFFF < r0 then RuneError else r0) in
      if r < 0x80 then [char_of r]
      else if r < 0x800 then [char_of (0xC0 + r div 64), char_of (0x80 + r mod 64)]
      else if r < 0x10000 then
        [char_of (0xE0 + r div 4096), char_of (0x80 + (r div 64) mod 64), char_of (0x80 + r mod 64)]
      else
        [char_of (0xF0 + r div 262144), char_of (0x80 + (r div 4096) mod 64),
         char_of (0x80 + (r div 64) mod 64), char_of (0x80 + r mod 64)])"

definition in_range :: "string \<Rightarrow> nat \<Rightarrow> nat \<Rightarrow> nat \<Rightarrow> bool" where
  \<comment> \<open>byte \<open>i\<close> of \<open>s\<close> exists and lies in \<open>[lo, hi]\<close>\<close>
  "in_range s i lo hi = (i < length s \<and> lo \<le> byte (s ! i) \<and> byte (s ! i) \<le> hi)"

definition rune_len :: "string \<Rightarrow> nat" where
  \<comment> \<open>The size \<open>utf8.DecodeRune\<close> reports for a well-formed encoding at the head of \<open>s\<close>;
      0 stands for an ill-formed one (the library then reports U+FFFD of width 1).\<close>
  "rune_len s =
     (case s of
        [] \<Rightarrow> 0
      | c # _ \<Rightarrow>
          let b = byte c in
          if b < 0x80 then 1
          else if 0xC2 \<le> b \<and> b \<le> 0xDF then (if in_range s 1 0x80 0xBF then 2 else 0)
          else if b = 0xE0 then
            (if in_range s 1 0xA0 0xBF \<and> in_range s 2 0x80 0xBF then 3 else 0)
          else if (0xE1 \<le> b \<and> b \<le> 0xEC) \<or> b = 0xEE \<or> b = 0xEF then
            (if in_range s 1 0x80 0xBF \<and> in_range s 2 0x80 0xBF then 3 else 0)
          else if b = 0xED then
            (if in_range s 1 0x80 0x9F \<and> in_range s 2 0x80 0xBF then 3 else 0)
          else if b = 0xF0 then
            (if in_range s 1 0x90 0xBF \<and> in_range s 2 0x80 0xBF \<and> in_range s 3 0x80 0xBF
             then 4 else 0)
          else if 0xF1 \<le> b \<and> b \<le> 0xF3 then
            (if in_range s 1 0x80 0xBF \<and> in_range s 2 0x80 0xBF \<and> in_range s 3 0x80 0xBF
             then 4 else 0)
          else if b = 0xF4 then
            (if in_range s 1 0x80 0x8F \<and> in_range s 2 0x80 0xBF \<and> in_range s 3 0x80 0xBF
             then 4 else 0)
          else 0)"

subsection \<open>String literals: \<open>unquote\<close>\<close>

definition getu4 :: "string \<Rightarrow> nat option" where
  \<comment> \<open>The code unit of a leading \<open>\\uXXXX\<close>, if \<open>s\<close> starts with one.\<close>
  "getu4 s =
     (case s of
        b # u # h1 # h2 # h3 # h4 # _ \<Rightarrow>
          if byte b = 0x5C \<and> byte u = 0x75 \<and> is_hex h1 \<and> is_hex h2 \<and> is_hex h3 \<and> is_hex h4
          then Some (((hexval h1 * 16 + hexval h2) * 16 + hexval h3) * 16 + hexval h4)
          else None
      | _ \<Rightarrow> None)"

definition IsSurrogate :: "nat \<Rightarrow> bool" where
  "IsSurrogate r = (0xD800 \<le> r \<and> r < 0xE000)"

definition utf16_DecodeRune :: "nat \<Rightarrow> nat \<Rightarrow> nat" where
  "utf16_DecodeRune r1 r2 =
     (if 0xD800 \<le> r1 \<and> r1 < 0xDC00 \<and> 0xDC00 \<le> r2 \<and> r2 < 0xE000
      then (r1 - 0xD800) * 1024 + (r2 - 0xDC00) + 0x10000
      else RuneError)"

definition escape_byte :: "char \<Rightarrow> char option" where
  "escape_byte e =
     (if byte e = 0x22 \<or> byte e = 0x5C \<or> byte e = 0x2F then Some e
      else if byte e = 0x62 then Some (CHR 0x08)
      else if byte e = 0x66 then Some (CHR 0x0C)
      else if byte e = 0x6E then Some (CHR 0x0A)
      else if byte e = 0x72 then Some (CHR 0x0D)
      else if byte e = 0x74 then Some (CHR 0x09)
      else None)"

fun unquote :: "string \<Rightarrow> string option" where
  "unquote [] = Some []"
| "unquote (c # r) =
     (if byte c = 0x5C then
        (case r of
           [] \<Rightarrow> None
         | e # r' \<Rightarrow>
             if byte e = 0x75 then
               (case getu4 (c # r) of
                  None \<Rightarrow> None
                | Some rr \<Rightarrow>
                    if IsSurrogate rr then
                      (case getu4 (drop 4 r') of
                         None \<Rightarrow> map_option ((@) (EncodeRune RuneError)) (unquote (drop 4 r'))
                       | Some rr1 \<Rightarrow>
                           if utf16_DecodeRune rr rr1 \<noteq> RuneError
                           then map_option ((@) (EncodeRune (utf16_DecodeRune rr rr1)))
                                  (unquote (drop 10 r'))
                           else map_option ((@) (EncodeRune RuneError)) (unquote (drop 4 r')))
                    else map_option ((@) (EncodeRune rr)) (unquote (drop 4 r')))
             else
               (case escape_byte e of
                  None \<Rightarrow> None
                | Some x \<Rightarrow> map_option ((#) x) (unquote r')))
      else if byte c = 0x22 \<or> byte c < 0x20 then None
      else if byte c < 0x80 then map_option ((#) c) (unquote r)
      else if rune_len (c # r) = 0 then map_option ((@) (EncodeRune RuneError)) (unquote r)
      else map_option ((@) (take (rune_len (c # r)) (c # r)))
             (unquote (drop (rune_len (c # r) - 1) r)))"

subsection \<open>The scanner\<close>

datatype numstate = NNeg | NZero | NInt | NDot | NFrac | NE | NESign | NExp

definition num_step :: "numstate \<Rightarrow> char \<Rightarrow> numstate option" where
  "num_step s c =
     (case s of
        NNeg \<Rightarrow> if byte c = 0x30 then Some NZero else if is_digit19 c then Some NInt else None
      | NZero \<Rightarrow>
          if byte c = 0x2E then Some NDot
          else if byte c = 0x65 \<or> byte c = 0x45 then Some NE else None
      | NInt \<Rightarrow>
          if is_digit c then Some NInt
          else if byte c = 0x2E then Some NDot
          else if byte c = 0x65 \<or> byte c = 0x45 then Some NE else None
      | NDot \<Rightarrow> if is_digit c then Some NFrac else None
      | NFrac \<Rightarrow>
          if is_digit c then Some NFrac
          else if byte c = 0x65 \<or> byte c = 0x45 then Some NE else None
      | NE \<Rightarrow>
          if byte c = 0x2B \<or> byte c = 0x2D then Some NESign
          else if is_digit c then Some NExp else None
      | NESign \<Rightarrow> if is_digit c then Some NExp else None
      | NExp \<Rightarrow> if is_digit c then Some NExp else None)"

definition num_final :: "numstate \<Rightarrow> bool" where
  "num_final s = (s = NZero \<or> s = NInt \<or> s = NFrac \<or> s = NExp)"

datatype lexstate =
    LIdle
  | LStr string
  | LEsc string
  | LHex nat string
  | LNum numstate string
  | LLit string token

definition lex_idle :: "char \<Rightarrow> (token list \<times> lexstate) option" where
  "lex_idle c =
     (if is_space c then Some ([], LIdle)
      else if byte c = 0x7B then Some ([TLBrace], LIdle)
      else if byte c = 0x7D then Some ([TRBrace], LIdle)
      else if byte c = 0x5B then Some ([TLBrack], LIdle)
      else if byte c = 0x5D then Some ([TRBrack], LIdle)
      else if byte c = 0x3A then Some ([TColon], LIdle)
      else if byte c = 0x2C then Some ([TComma], LIdle)
      else if byte c = 0x22 then Some ([], LStr [])
      else if byte c = 0x2D then Some ([], LNum NNeg [c])
      else if byte c = 0x30 then Some ([], LNum NZero [c])
      else if is_digit19 c then Some ([], LNum NInt [c])
      else if byte c = 0x74 then Some ([], LLit ''rue'' TTrue)
      else if byte c = 0x66 then Some ([], LLit ''alse'' TFalse)
      else if byte c = 0x6E then Some ([], LLit ''ull'' TNull)
      else None)"

definition lex_step :: "lexstate \<Rightarrow> char \<Rightarrow> (token list \<times> lexstate) option" where
  "lex_step s c =
     (case s of
        LIdle \<Rightarrow> lex_idle c
      | LStr raw \<Rightarrow>
          if byte c = 0x22 then
            (case unquote (rev raw) of None \<Rightarrow> None | Some t \<Rightarrow> Some ([TStr t], LIdle))
          else if byte c = 0x5C then Some ([], LEsc (c # raw))
          else if byte c < 0x20 then None
          else Some ([], LStr (c # raw))
      | LEsc raw \<Rightarrow>
          if byte c = 0x75 then Some ([], LHex 4 (c # raw))
          else if escape_byte c \<noteq> None then Some ([], LStr (c # raw))
          else None
      | LHex n raw \<Rightarrow>
          if is_hex c then Some ([], if n \<le> 1 then LStr (c # raw) else LHex (n - 1) (c # raw))
          else None
      | LNum ns acc \<Rightarrow>
          (case num_step ns c of
             Some ns' \<Rightarrow> Some ([], LNum ns' (c # acc))
           | None \<Rightarrow>
               if num_final ns then
                 (case lex_idle c of
                    None \<Rightarrow> None
                  | Some (ts, s') \<Rightarrow> Some (TNum (rev acc) # ts, s'))
               else None)
      | LLit rest tok \<Rightarrow>
          (case rest of
             [] \<Rightarrow> None
           | x # xs \<Rightarrow>
               if c = x then Some (if xs = [] then ([tok], LIdle) else ([], LLit xs tok))
               else None))"

definition lex_end :: "lexstate \<Rightarrow> token list option" where
  "lex_end s =
     (case s of
        LIdle \<Rightarrow> Some []
      | LNum ns acc \<Rightarrow> if num_final ns then Some [TNum (rev acc)] else None
      | _ \<Rightarrow> None)"

fun lex_run :: "lexstate \<Rightarrow> string \<Rightarrow> token list option" where
  "lex_run s [] = lex_end s"
| "lex_run s (c # cs) =
     (case lex_step s c of
        None \<Rightarrow> None
      | Some (ts, s') \<Rightarrow> map_option ((@) ts) (lex_run s' cs))"

subsection \<open>The grammar\<close>

datatype frame = FArr "json list" | FObj "(string \<times> json) list" "string option"

datatype expect =
    BeginValue
  | BeginValueOrEmpty
  | BeginStringOrEmpty
  | BeginString
  | ObjectKey
  | EndValue
  | EndTop json

definition maxNestingDepth :: nat where
  "maxNestingDepth = 10000"

definition push_value :: "json \<Rightarrow> frame list \<Rightarrow> (expect \<times> frame list) option" where
  "push_value v st =
     (case st of
        [] \<Rightarrow> Some (EndTop v, [])
      | FArr es # st' \<Rightarrow> Some (EndValue, FArr (v # es) # st')
      | FObj ms (Some k) # st' \<Rightarrow> Some (EndValue, FObj ((k, v) # ms) None # st')
      | FObj ms None # st' \<Rightarrow> None)"

definition begin_value :: "token \<Rightarrow> frame list \<Rightarrow> (expect \<times> frame list) option" where
  "begin_value t st =
     (case t of
        TLBrack \<Rightarrow>
          if length st < maxNestingDepth then Some (BeginValueOrEmpty, FArr [] # st) else None
      | TLBrace \<Rightarrow>
          if length st < maxNestingDepth then Some (BeginStringOrEmpty, FObj [] None # st) else None
      | TStr s \<Rightarrow> push_value (JString s) st
      | TNum n \<Rightarrow> push_value (JNumber n) st
      | TTrue \<Rightarrow> push_value (JBool True) st
      | TFalse \<Rightarrow> push_value (JBool False) st
      | TNull \<Rightarrow> push_value JNull st
      | _ \<Rightarrow> None)"

definition close_array :: "frame list \<Rightarrow> (expect \<times> frame list) option" where
  "close_array st =
     (case st of FArr es # st' \<Rightarrow> push_value (JArray (rev es)) st' | _ \<Rightarrow> None)"

definition close_object :: "frame list \<Rightarrow> (expect \<times> frame list) option" where
  "close_object st =
     (case st of FObj ms None # st' \<Rightarrow> push_value (JObject (rev ms)) st' | _ \<Rightarrow> None)"

definition set_key :: "string \<Rightarrow> frame list \<Rightarrow> (expect \<times> frame list) option" where
  "set_key k st =
     (case st of FObj ms None # st' \<Rightarrow> Some (ObjectKey, FObj ms (Some k) # st') | _ \<Rightarrow> None)"

definition parse_step :: "expect \<times> frame list \<Rightarrow> token \<Rightarrow> (expect \<times> frame list) option" where
  "parse_step p t =
     (case p of (e, st) \<Rightarrow>
        (case e of
           BeginValue \<Rightarrow> begin_value t st
         | BeginValueOrEmpty \<Rightarrow> if t = TRBrack then close_array st else begin_value t st
         | BeginStringOrEmpty \<Rightarrow>
             (case t of TRBrace \<Rightarrow> close_object st | TStr k \<Rightarrow> set_key k st | _ \<Rightarrow> None)
         | BeginString \<Rightarrow> (case t of TStr k \<Rightarrow> set_key k st | _ \<Rightarrow> None)
         | ObjectKey \<Rightarrow> if t = TColon then Some (BeginValue, st) else None
         | EndValue \<Rightarrow>
             (case st of
                FArr es # _ \<Rightarrow>
                  if t = TComma then Some (BeginValue, st)
                  else if t = TRBrack then close_array st else None
              | FObj ms k # _ \<Rightarrow>
                  if t = TComma then Some (BeginString, st)
                  else if t = TRBrace then close_object st else None
              | [] \<Rightarrow> None)
         | EndTop v \<Rightarrow> None))"

fun parse_run :: "expect \<times> frame list \<Rightarrow> token list \<Rightarrow> json option" where
  "parse_run p [] = (case p of (EndTop v, []) \<Rightarrow> Some v | _ \<Rightarrow> None)"
| "parse_run p (t # ts) =
     (case parse_step p t of None \<Rightarrow> None | Some p' \<Rightarrow> parse_run p' ts)"

definition json_parse :: "string \<Rightarrow> json option" where
  \<comment> \<open>\<open>None\<close> is the library's \<open>*json.SyntaxError\<close>.\<close>
  "json_parse body =
     (case lex_run LIdle body of
        None \<Rightarrow> None
      | Some ts \<Rightarrow> parse_run (BeginValue, []) ts)"

subsection \<open>Storing a JSON value into a Response\<close>

text \<open>
  A value of the wrong JSON type for its field is skipped: the decoder remembers the
  earliest such \<open>*json.UnmarshalTypeError\<close>, goes on with the remaining members, and
  returns that error at the end. \<open>null\<close> leaves a string or a bool as it is and makes a
  slice nil. Object keys are matched with the field tags up to case folding.
\<close>

datatype json_error =
    SyntaxError
  | UnmarshalTypeError string string string string
      \<comment> \<open>the fields \<open>Value\<close>, \<open>Type\<close>, \<open>Struct\<close>, \<open>Field\<close>\<close>

definition json_error_Error :: "(string \<Rightarrow> string) \<Rightarrow> string \<Rightarrow> json_error \<Rightarrow> string" where
  \<comment> \<open>\<open>err.Error()\<close>. The wording of a syntax error is the library's business:
      \<open>syntaxMsg body\<close> stands for the text it reports for the invalid input \<open>body\<close>.\<close>
  "json_error_Error syntaxMsg body e =
     (case e of
        SyntaxError \<Rightarrow> syntaxMsg body
      | UnmarshalTypeError val ty struct field \<Rightarrow>
          if struct \<noteq> [] \<or> field \<noteq> [] then
            ''json: cannot unmarshal '' @ val @ '' into Go struct field '' @ struct @ ''.''
              @ field @ '' of type '' @ ty
          else ''json: cannot unmarshal '' @ val @ '' into Go value of type '' @ ty)"

definition json_kind :: "json \<Rightarrow> string" where
  "json_kind v =
     (case v of
        JNull \<Rightarrow> ''null''
      | JBool _ \<Rightarrow> ''bool''
      | JNumber _ \<Rightarrow> ''number''
      | JString _ \<Rightarrow> ''string''
      | JArray _ \<Rightarrow> ''array''
      | JObject _ \<Rightarrow> ''object'')"

definition saveError :: "json_error \<Rightarrow> json_error option \<Rightarrow> json_error option" where
  "saveError e saved = (case saved of None \<Rightarrow> Some e | Some x \<Rightarrow> Some x)"

fun foldName :: "string \<Rightarrow> string" where
  \<comment> \<open>ASCII letters to upper case; U+017F and U+212A, the only other runes that fold
      to an ASCII letter, to \<open>S\<close> and \<open>K\<close>.\<close>
  "foldName [] = []"
| "foldName (c # r) =
     (if byte c < 0x80 then
        (if 0x61 \<le> byte c \<and> byte c \<le> 0x7A then char_of (byte c - 0x20) else c) # foldName r
      else if byte c = 0xC5 \<and> in_range r 0 0xBF 0xBF then CHR ''S'' # foldName (drop 1 r)
      else if byte c = 0xE2 \<and> in_range r 0 0x84 0x84 \<and> in_range r 1 0xAA 0xAA
        then CHR ''K'' # foldName (drop 2 r)
      else c # foldName r)"

datatype field = FChallengeTS | FHostname | FErrorCodes | FSuccess | FCredit

definition field_name :: "field \<Rightarrow> string" where
  "field_name f =
     (case f of
        FChallengeTS \<Rightarrow> ''challenge_ts''
      | FHostname \<Rightarrow> ''hostname''
      | FErrorCodes \<Rightarrow> ''error-codes''
      | FSuccess \<Rightarrow> ''success''
      | FCredit \<Rightarrow> ''credit'')"

definition field_of_key :: "string \<Rightarrow> field option" where
  "field_of_key k =
     (let n = foldName k in
      if n = foldName (field_name FChallengeTS) then Some FChallengeTS
      else if n = foldName (field_name FHostname) then Some FHostname
      else if n = foldName (field_name FErrorCodes) then Some FErrorCodes
      else if n = foldName (field_name FSuccess) then Some FSuccess
      else if n = foldName (field_name FCredit) then Some FCredit
      else None)"

definition type_error :: "json \<Rightarrow> string \<Rightarrow> field \<Rightarrow> json_error" where
  "type_error v ty f = UnmarshalTypeError (json_kind v) ty ''Response'' (field_name f)"

definition store_string ::
  "field \<Rightarrow> json \<Rightarrow> string \<Rightarrow> json_error option \<Rightarrow> string \<times> json_error option" where
  "store_string f v cur saved =
     (case v of
        JString s \<Rightarrow> (s, saved)
      | JNull \<Rightarrow> (cur, saved)
      | _ \<Rightarrow> (cur, saveError (type_error v ''string'' f) saved))"

definition store_bool ::
  "field \<Rightarrow> json \<Rightarrow> bool \<Rightarrow> json_error option \<Rightarrow> bool \<times> json_error option" where
  "store_bool f v cur saved =
     (case v of
        JBool b \<Rightarrow> (b, saved)
      | JNull \<Rightarrow> (cur, saved)
      | _ \<Rightarrow> (cur, saveError (type_error v ''bool'' f) saved))"

fun store_elems ::
  "field \<Rightarrow> json list \<Rightarrow> string list \<Rightarrow> json_error option \<Rightarrow>
     string list \<times> json_error option" where
  \<comment> \<open>The elements of an array, in order: element \<open>i\<close> is decoded into the slice's
      element \<open>i\<close> when the slice has one, into an empty string otherwise (the slice
      is taken to hold nothing beyond its length).\<close>
  "store_elems f [] cur saved = ([], saved)"
| "store_elems f (e # es) cur saved =
     (case store_string f e (case cur of [] \<Rightarrow> [] | x # _ \<Rightarrow> x) saved of
        (s, saved') \<Rightarrow>
          (case store_elems f es (case cur of [] \<Rightarrow> [] | _ # xs \<Rightarrow> xs) saved' of
             (ss, saved'') \<Rightarrow> (s # ss, saved'')))"

definition store_strings ::
  "field \<Rightarrow> json \<Rightarrow> string list \<Rightarrow> json_error option \<Rightarrow> string list \<times> json_error option" where
  "store_strings f v cur saved =
     (case v of
        JArray es \<Rightarrow> store_elems f es cur saved
      | JNull \<Rightarrow> ([], saved)
      | _ \<Rightarrow> (cur, saveError (type_error v ''[]string'' f) saved))"

definition store_member ::
  "string \<times> json \<Rightarrow> json_error option \<times> Response \<Rightarrow> json_error option \<times> Response" where
  "store_member m acc =
     (case m of (k, v) \<Rightarrow>
      case acc of (saved, r) \<Rightarrow>
        (case field_of_key k of
           None \<Rightarrow> (saved, r)
         | Some FChallengeTS \<Rightarrow>
             (case store_string FChallengeTS v (ChallengeTS r) saved of
                (x, saved') \<Rightarrow> (saved', r\<lparr>ChallengeTS := x\<rparr>))
         | Some FHostname \<Rightarrow>
             (case store_string FHostname v (Hostname r) saved of
                (x, saved') \<Rightarrow> (saved', r\<lparr>Hostname := x\<rparr>))
         | Some FErrorCodes \<Rightarrow>
             (case store_strings FErrorCodes v (ErrorCodes r) saved of
                (x, saved') \<Rightarrow> (saved', r\<lparr>ErrorCodes := x\<rparr>))
         | Some FSuccess \<Rightarrow>
             (case store_bool FSuccess v (Success r) saved of
                (x, saved') \<Rightarrow> (saved', r\<lparr>Success := x\<rparr>))
         | Some FCredit \<Rightarrow>
             (case store_bool FCredit v (Credit r) saved of
                (x, saved') \<Rightarrow> (saved', r\<lparr>Credit := x\<rparr>))))"

definition json_Unmarshal :: "string \<Rightarrow> Response \<Rightarrow> json_error option \<times> Response" where
  \<comment> \<open>\<open>err = json.Unmarshal(body, &response)\<close>: the error and the struct as it is left.\<close>
  "json_Unmarshal body r =
     (case json_parse body of
        None \<Rightarrow> (Some SyntaxError, r)
      | Some v \<Rightarrow>
          (case v of
             JObject ms \<Rightarrow> fold store_member ms (None, r)
           | JNull \<Rightarrow> (None, r)
           | _ \<Rightarrow> (Some (UnmarshalTypeError (json_kind v) ''hcaptcha.Response'' [] []), r)))"

section \<open>Errors, contexts, requests and response writers\<close>

datatype error = ErrNotMultipart | errors_New string

definition Error :: "error \<Rightarrow> string" where
  "Error e =
     (case e of
        ErrNotMultipart \<Rightarrow> ''request Content-Type isn't multipart/form-data''
      | errors_New s \<Rightarrow> s)"

text \<open>
  A context value is an \<open>interface{}\<close>: nil, or a value of some dynamic type. A context is
  the chain of \<open>WithValue\<close> pairs, innermost first.
\<close>

datatype any = ANil | AResponse Response | AString string | AInt int | ABool bool

type_synonym Context = "(any \<times> any) list"

definition Context_Value :: "Context \<Rightarrow> any \<Rightarrow> any" where
  "Context_Value ctx key = (case map_of ctx key of None \<Rightarrow> ANil | Some v \<Rightarrow> v)"

definition WithValue :: "Context \<Rightarrow> any \<Rightarrow> any \<Rightarrow> Context" where
  "WithValue parent key val = (key, val) # parent"

definition ResponseContextKey :: any where
  "ResponseContextKey = AString ''hcaptcha''"

definition PostMaxMemory :: "64 word" where
  "PostMaxMemory = push_bit 20 32"

text \<open>
  A request is what the code reads of it: what \<open>r.ParseMultipartForm(maxMemory)\<close> returns
  and leaves in \<open>r.Form\<close>, \<open>r.PostForm\<close> and \<open>r.MultipartForm\<close> (nil is \<open>None\<close>), and
  the request's context.
\<close>

record multipart_Form =
  Value :: Values

record ParsedForm =
  Err :: "error option"
  Form :: Values
  PostForm :: Values
  MultipartForm :: "multipart_Form option"

record Request =
  ParseMultipartForm :: "64 word \<Rightarrow> ParsedForm"
  Ctx :: Context

definition WithContext :: "Request \<Rightarrow> Context \<Rightarrow> Request" where
  "WithContext r ctx = r\<lparr>Ctx := ctx\<rparr>"

text \<open>
  A response writer records what is written to it: the first \<open>WriteHeader\<close> fixes the
  status, a \<open>Write\<close> before any \<open>WriteHeader\<close> implies status 200.
\<close>

record ResponseWriter =
  Header :: Values
  Status :: "nat option"
  Written :: string

definition Header_Set :: "Values \<Rightarrow> string \<Rightarrow> string \<Rightarrow> Values" where
  "Header_Set h key val = (key, [val]) # filter (\<lambda>(k, _). k \<noteq> key) h"

definition Header_Del :: "Values \<Rightarrow> string \<Rightarrow> Values" where
  "Header_Del h key = filter (\<lambda>(k, _). k \<noteq> key) h"

definition WriteHeader :: "ResponseWriter \<Rightarrow> nat \<Rightarrow> ResponseWriter" where
  "WriteHeader w code = (if Status w = None then w\<lparr>Status := Some code\<rparr> else w)"

definition Write :: "ResponseWriter \<Rightarrow> string \<Rightarrow> ResponseWriter" where
  "Write w data =
     (let w' = (if Status w = None then WriteHeader w 200 else w)
      in w'\<lparr>Written := Written w' @ data\<rparr>)"

definition StatusTooManyRequests :: nat where
  "StatusTooManyRequests = 429"

definition StatusText :: "nat \<Rightarrow> string" where
  "StatusText code =
     (if code = 100 then ''Continue''
      else if code = 101 then ''Switching Protocols''
      else if code = 102 then ''Processing''
      else if code = 103 then ''Early Hints''
      else if code = 200 then ''OK''
      else if code = 201 then ''Created''
      else if code = 202 then ''Accepted''
      else if code = 203 then ''Non-Authoritative Information''
      else if code = 204 then ''No Content''
      else if code = 205 then ''Reset Content''
      else if code = 206 then ''Partial Content''
      else if code = 207 then ''Multi-Status''
      else if code = 208 then ''Already Reported''
      else if code = 226 then ''IM Used''
      else if code = 300 then ''Multiple Choices''
      else if code = 301 then ''Moved Permanently''
      else if code = 302 then ''Found''
      else if code = 303 then ''See Other''
      else if code = 304 then ''Not Modified''
      else if code = 305 then ''Use Proxy''
      else if code = 307 then ''Temporary Redirect''
      else if code = 308 then ''Permanent Redirect''
      else if code = 400 then ''Bad Request''
      else if code = 401 then ''Unauthorized''
      else if code = 402 then ''Payment Required''
      else if code = 403 then ''Forbidden''
      else if code = 404 then ''Not Found''
      else if code = 405 then ''Method Not Allowed''
      else if code = 406 then ''Not Acceptable''
      else if code = 407 then ''Proxy Authentication Required''
      else if code = 408 then ''Request Timeout''
      else if code = 409 then ''Conflict''
      else if code = 410 then ''Gone''
      else if code = 411 then ''Length Required''
      else if code = 412 then ''Precondition Failed''
      else if code = 413 then ''Request Entity Too Large''
      else if code = 414 then ''Request URI Too Long''
      else if code = 415 then ''Unsupported Media Type''
      else if code = 416 then ''Requested Range Not Satisfiable''
      else if code = 417 then ''Expectation Failed''
      else if code = 418 then ''I'm a teapot''
      else if code = 421 then ''Misdirected Request''
      else if code = 422 then ''Unprocessable Entity''
      else if code = 423 then ''Locked''
      else if code = 424 then ''Failed Dependency''
      else if code = 425 then ''Too Early''
      else if code = 426 then ''Upgrade Required''
      else if code = 428 then ''Precondition Required''
      else if code = 429 then ''Too Many Requests''
      else if code = 431 then ''Request Header Fields Too Large''
      else if code = 451 then ''Unavailable For Legal Reasons''
      else if code = 500 then ''Internal Server Error''
      else if code = 501 then ''Not Implemented''
      else if code = 502 then ''Bad Gateway''
      else if code = 503 then ''Service Unavailable''
      else if code = 504 then ''Gateway Timeout''
      else if code = 505 then ''HTTP Version Not Supported''
      else if code = 506 then ''Variant Also Negotiates''
      else if code = 507 then ''Insufficient Storage''
      else if code = 508 then ''Loop Detected''
      else if code = 510 then ''Not Extended''
      else if code = 511 then ''Network Authentication Required''
      else [])"

definition http_Error :: "ResponseWriter \<Rightarrow> string \<Rightarrow> nat \<Rightarrow> ResponseWriter" where
  \<comment> \<open>\<open>http.Error\<close>: \<open>Content-Length\<close> is deleted, two headers are set, then the status
      is written, then the text and a newline as the body.\<close>
  "http_Error w err code =
     (let w0 = w\<lparr>Header := Header_Del (Header w) ''Content-Length''\<rparr>;
          w1 = w0\<lparr>Header := Header_Set (Header w0) ''Content-Type'' ''text/plain; charset=utf-8''\<rparr>;
          w2 = w1\<lparr>Header := Header_Set (Header w1) ''X-Content-Type-Options'' ''nosniff''\<rparr>;
          w3 = WriteHeader w2 code
      in Write w3 (err @ [CHR 0x0A]))"

section \<open>The client\<close>

text \<open>
  An \<open>http.Handler\<close> is its \<open>ServeHTTP\<close>: it takes the response writer and the request, and
  leaves the writer changed. Pointers and interfaces are nil only where the code compares
  them with nil.

  The network is the list of the requests that have been sent, oldest first; a request
  that is sent has a method, a URL and, when it has a body, the form that the body
  encodes. Only the HTTP client sends. An HTTP client is its \<open>PostForm\<close> followed by
  \<open>io.ReadAll\<close> of the response's body: from the network as it is, a URL and a form, it
  gives the outcome of the call and the network as the call leaves it.
\<close>

type_synonym http_Handler = "ResponseWriter \<Rightarrow> Request \<Rightarrow> ResponseWriter"

datatype sent = Sent (sent_method: string) (sent_url: string) (sent_form: "Values option")

datatype PostOutcome = PostError error | ReadError error | Body string

type_synonym http_Client = "sent list \<Rightarrow> string \<Rightarrow> Values \<Rightarrow> PostOutcome \<times> sent list"

text \<open>
  \<open>http.DefaultClient\<close>, and every \<open>http.Client\<close> whose \<open>CheckRedirect\<close> is nil, follows
  redirects. Its transport answers a request, given the requests sent before it, with an
  error or with a response, of which the client reads the status code, the \<open>Location\<close>
  header (absent or empty, or not a URL, or the URL it resolves to) and the body (what
  \<open>io.ReadAll\<close> gives). After 301, 302 and 303 a POST is followed as a GET without body;
  after 307 and 308 the request is sent again to the new URL with the same method and
  the body of the first request. A response without \<open>Location\<close> is returned as it is. The
  client stops with an error instead of sending an eleventh request. The errors are the
  ones that \<open>PostForm\<close> returns: the \<open>*url.Error\<close> around the transport's error, and for
  the stop the one that \<open>stopped\<close> gives for the requests sent.
\<close>

record http_Response =
  StatusCode :: nat
  Location :: "(error + string) option"
  Content :: "error + string"

type_synonym RoundTripper = "sent list \<Rightarrow> sent \<Rightarrow> error + http_Response"

definition redirectBehavior :: "string \<Rightarrow> nat \<Rightarrow> (string \<times> bool) option" where
  \<comment> \<open>The method of the next request and whether it carries the body; \<open>None\<close> when the
      status is not one that is followed.\<close>
  "redirectBehavior reqMethod code =
     (if code = 301 \<or> code = 302 \<or> code = 303 then
        Some (if reqMethod \<noteq> ''GET'' \<and> reqMethod \<noteq> ''HEAD'' then ''GET'' else reqMethod, False)
      else if code = 307 \<or> code = 308 then Some (reqMethod, True)
      else None)"

definition read_body :: "http_Response \<Rightarrow> PostOutcome" where
  "read_body resp = (case Content resp of Inl err \<Rightarrow> ReadError err | Inr body \<Rightarrow> Body body)"

fun send_loop ::
  "nat \<Rightarrow> (sent list \<Rightarrow> error) \<Rightarrow> RoundTripper \<Rightarrow> Values \<Rightarrow> sent \<Rightarrow> sent list \<Rightarrow>
     PostOutcome \<times> sent list" where
  \<comment> \<open>The loop of \<open>(*http.Client).do\<close>; the first argument is the number of requests
      that the redirect policy still allows.\<close>
  "send_loop 0 stopped rt form req net = (PostError (stopped net), net)"
| "send_loop (Suc k) stopped rt form req net =
     (case rt net req of
        Inl err \<Rightarrow> (PostError err, net @ [req])
      | Inr resp \<Rightarrow>
          (case redirectBehavior (sent_method req) (StatusCode resp) of
             None \<Rightarrow> (read_body resp, net @ [req])
           | Some (redirectMethod, includeBody) \<Rightarrow>
               (case Location resp of
                  None \<Rightarrow> (read_body resp, net @ [req])
                | Some (Inl err) \<Rightarrow> (PostError err, net @ [req])
                | Some (Inr u) \<Rightarrow>
                    send_loop k stopped rt form
                      (Sent redirectMethod u (if includeBody then Some form else None))
                      (net @ [req]))))"

definition http_PostForm :: "(sent list \<Rightarrow> error) \<Rightarrow> RoundTripper \<Rightarrow> http_Client" where
  \<comment> \<open>\<open>PostForm\<close> and \<open>io.ReadAll\<close> of a client with transport \<open>rt\<close> and no
      \<open>CheckRedirect\<close>.\<close>
  "http_PostForm stopped rt net url form =
     send_loop 10 stopped rt form (Sent ''POST'' url (Some form)) net"

record Client =
  HTTPClient :: http_Client
  FailureHandler :: "http_Handler option"
  RemoteIP :: string
  SiteKey :: string
  secret :: string

definition DefaultFailureHandler :: http_Handler where
  "DefaultFailureHandler w r = http_Error w (StatusText StatusTooManyRequests) StatusTooManyRequests"

definition New :: "http_Client \<Rightarrow> string \<Rightarrow> Client" where
  \<comment> \<open>\<open>New(secret)\<close>; \<open>DefaultClient\<close> stands for \<open>http.DefaultClient\<close>.\<close>
  "New DefaultClient s =
     \<lparr>HTTPClient = DefaultClient, FailureHandler = Some DefaultFailureHandler,
      RemoteIP = [], SiteKey = [], secret = s\<rparr>"

definition apiURL :: string where
  "apiURL = ''https://hcaptcha.com/siteverify''"

definition VerifyToken ::
  "(string \<Rightarrow> string) \<Rightarrow> Client \<Rightarrow> string \<Rightarrow> sent list \<Rightarrow> Response \<times> sent list" where
  "VerifyToken syntaxMsg c tkn net =
     (let response = Response_zero in
      if tkn = [] then
        (response\<lparr>ErrorCodes := ErrorCodes response @ [Error (errors_New ''tkn is empty'')]\<rparr>, net)
      else
        let values0 = [(''secret'', [secret c]), (''response'', [tkn])];
            values1 = (if RemoteIP c \<noteq> [] then Values_Add values0 ''remoteip'' (RemoteIP c)
                       else values0);
            values = (if SiteKey c \<noteq> [] then Values_Add values1 ''sitekey'' (SiteKey c)
                      else values1)
        in case HTTPClient c net apiURL values of
             (PostError err, net') \<Rightarrow>
               (response\<lparr>ErrorCodes := ErrorCodes response @ [Error err]\<rparr>, net')
           | (ReadError err, net') \<Rightarrow>
               (response\<lparr>ErrorCodes := ErrorCodes response @ [Error err]\<rparr>, net')
           | (Body body, net') \<Rightarrow>
               (case json_Unmarshal body response of
                  (Some err, response') \<Rightarrow>
                    (response'\<lparr>ErrorCodes :=
                        ErrorCodes response' @ [json_error_Error syntaxMsg body err]\<rparr>, net')
                | (None, response') \<Rightarrow> (response', net')))"

definition getFormValue :: "Request \<Rightarrow> string \<Rightarrow> string \<times> error option" where
  "getFormValue r key =
     (let p = ParseMultipartForm r PostMaxMemory in
      if Err p \<noteq> None \<and> Err p \<noteq> Some ErrNotMultipart then ([], Err p)
      else if Form p \<noteq> [] then (Values_Get (Form p) key, None)
      else if PostForm p \<noteq> [] then (Values_Get (PostForm p) key, None)
      else
        (case MultipartForm p of
           None \<Rightarrow> ([], None)
         | Some m \<Rightarrow>
             if Value m \<noteq> [] then
               (case map_of (Value m) key of
                  None \<Rightarrow> ([], None)
                | Some vs \<Rightarrow> (case vs of [] \<Rightarrow> ([], None) | x # _ \<Rightarrow> (x, None)))
             else ([], None)))"

definition SiteVerify ::
  "(string \<Rightarrow> string) \<Rightarrow> Client \<Rightarrow> Request \<Rightarrow> sent list \<Rightarrow> Response \<times> sent list" where
  "SiteVerify syntaxMsg c r net =
     (let response = Response_zero in
      case getFormValue r ''h-captcha-response'' of
        (generatedResponseID, Some err) \<Rightarrow>
          (response\<lparr>ErrorCodes := ErrorCodes response @ [Error err]\<rparr>, net)
      | (generatedResponseID, None) \<Rightarrow>
          if generatedResponseID = [] then
            (response\<lparr>ErrorCodes :=
                ErrorCodes response @ [''form[h-captcha-response] is empty'']\<rparr>, net)
          else VerifyToken syntaxMsg c generatedResponseID net)"

definition Handler ::
  "(string \<Rightarrow> string) \<Rightarrow> Client \<Rightarrow> http_Handler \<Rightarrow>
     ResponseWriter \<Rightarrow> Request \<Rightarrow> sent list \<Rightarrow> ResponseWriter \<times> sent list" where
  "Handler syntaxMsg c next w r net =
     (case SiteVerify syntaxMsg c r net of
        (v, net') \<Rightarrow>
          let r' = WithContext r (WithValue (Ctx r) ResponseContextKey (AResponse v)) in
          if Success v then (next w r', net')
          else
            (case FailureHandler c of
               Some fh \<Rightarrow> (fh w r', net')
             | None \<Rightarrow> (w, net')))"

definition HandlerFunc ::
  "(string \<Rightarrow> string) \<Rightarrow> Client \<Rightarrow> http_Handler \<Rightarrow>
     ResponseWriter \<Rightarrow> Request \<Rightarrow> sent list \<Rightarrow> ResponseWriter \<times> sent list" where
  "HandlerFunc syntaxMsg c next = Handler syntaxMsg c next"

definition Get :: "Request \<Rightarrow> Response \<times> bool" where
  "Get r =
     (let v = Context_Value (Ctx r) ResponseContextKey in
      if v \<noteq> ANil then
        (case v of
           AResponse response \<Rightarrow> (response, True)
         | _ \<Rightarrow> (Response_zero, False))
      else (Response_zero, False))"

section \<open>Auxiliary definitions for the statements\<close>

definition form_of :: "Client \<Rightarrow> string \<Rightarrow> Values" where
  \<comment> \<open>The form that \<open>VerifyToken\<close> builds in \<open>values\<close> before it posts.\<close>
  "form_of c tkn =
     (let values0 = [(''secret'', [secret c]), (''response'', [tkn])];
          values1 = (if RemoteIP c \<noteq> [] then Values_Add values0 ''remoteip'' (RemoteIP c)
                     else values0)
      in if SiteKey c \<noteq> [] then Values_Add values1 ''sitekey'' (SiteKey c) else values1)"

fun plain :: "string \<Rightarrow> bool" where
  \<comment> \<open>Printable ASCII without the double quote and the backslash: text that a JSON
      string literal carries as it is.\<close>
  "plain [] = True"
| "plain (c # cs) =
     (0x20 \<le> byte c \<and> byte c < 0x80 \<and> byte c \<noteq> 0x22 \<and> byte c \<noteq> 0x5C \<and> plain cs)"

subsection \<open>Example inputs\<close>

definition request_of :: "ParsedForm \<Rightarrow> Context \<Rightarrow> Request" where
  "request_of p ctx = \<lparr>ParseMultipartForm = (\<lambda>maxMemory. p), Ctx = ctx\<rparr>"

definition ex_urlencoded :: "string \<Rightarrow> ParsedForm" where
  \<comment> \<open>A form-encoded POST whose body carries the token field.\<close>
  "ex_urlencoded tok =
     \<lparr>Err = Some ErrNotMultipart, Form = [(''h-captcha-response'', [tok])],
      PostForm = [(''h-captcha-response'', [tok])], MultipartForm = None\<rparr>"

definition ex_other_field :: ParsedForm where
  \<comment> \<open>A form-encoded POST with a valid body that has no token field.\<close>
  "ex_other_field =
     \<lparr>Err = Some ErrNotMultipart, Form = [(''name'', [''bob''])],
      PostForm = [(''name'', [''bob''])], MultipartForm = None\<rparr>"

definition ex_postform_only :: ParsedForm where
  "ex_postform_only =
     \<lparr>Err = None, Form = [], PostForm = [(''h-captcha-response'', [''p1''])],
      MultipartForm = None\<rparr>"

definition ex_multipart_only :: ParsedForm where
  "ex_multipart_only =
     \<lparr>Err = None, Form = [], PostForm = [],
      MultipartForm = Some \<lparr>Value = [(''h-captcha-response'', [''abc123''])]\<rparr>\<rparr>"

definition ex_no_form :: ParsedForm where
  "ex_no_form = \<lparr>Err = Some ErrNotMultipart, Form = [], PostForm = [], MultipartForm = None\<rparr>"

definition ex_parse_failure :: ParsedForm where
  "ex_parse_failure =
     \<lparr>Err = Some (errors_New ''no multipart boundary param in Content-Type''),
      Form = [], PostForm = [], MultipartForm = None\<rparr>"

definition ex_stopped :: "sent list \<Rightarrow> error" where
  \<open>ex_stopped net =
     errors_New ''Post "https://hcaptcha.com/siteverify": stopped after 10 redirects''\<close>

definition ex_answering :: "string \<Rightarrow> RoundTripper" where
  \<comment> \<open>A server that answers every request with status 200 and the given body.\<close>
  "ex_answering body net req = Inr \<lparr>StatusCode = 200, Location = None, Content = Inr body\<rparr>"



definition ex_accepting :: http_Client where
  \<open>ex_accepting =
     http_PostForm ex_stopped
       (ex_answering ''{"success":true,"challenge_ts":"T","hostname":"H"}'')\<close>

definition ex_rejecting :: http_Client where
  \<open>ex_rejecting =
     http_PostForm ex_stopped
       (ex_answering ''{"success":false,"error-codes":["invalid-input-response"]}'')\<close>

definition ex_mistyped :: http_Client where
  \<open>ex_mistyped = http_PostForm ex_stopped (ex_answering ''{"success":true,"hostname":5}'')\<close>



definition ex_syntaxMsg :: "string \<Rightarrow> string" where
  "ex_syntaxMsg body = ''unexpected end of JSON input''"

definition ex_writer :: ResponseWriter where
  "ex_writer = \<lparr>Header = [], Status = None, Written = []\<rparr>"

definition ex_inner :: http_Handler where
  "ex_inner w r = Write w ''Page is inspected by a Human.''"

definition ex_other :: http_Handler where
  "ex_other w r = Write w ''another page''"

definition ex_accepted :: Response where
  "ex_accepted =
     \<lparr>ChallengeTS = ''T'', Hostname = ''H'', ErrorCodes = [], Success = True, Credit = False\<rparr>"

definition ex_rejected :: Response where
  "ex_rejected =
     \<lparr>ChallengeTS = [], Hostname = [], ErrorCodes = [''invalid-input-response''],
      Success = False, Credit = False\<rparr>"

section \<open>Basic facts\<close>

lemma Response_zero_sel:
  "Success Response_zero = False" "ErrorCodes Response_zero = []"
  "ChallengeTS Response_zero = []" "Hostname Response_zero = []" "Credit Response_zero = False"
  by (simp_all add: Response_zero_def)

lemma map_option_append_Nil [simp]: "map_option ((@) []) x = x"
  by (cases x) simp_all

lemma char_of_eq_iff_nat: "char_of (n::nat) = c \<longleftrightarrow> n mod 256 = of_char c"
  by (metis char_of_char of_char_of)

lemmas scan_defs =
  lex_step_def lex_idle_def lex_end_def byte_def is_space_def is_digit_def is_digit19_def
  num_step_def num_final_def escape_byte_def

lemmas parse_defs =
  parse_step_def begin_value_def push_value_def close_object_def close_array_def set_key_def
  maxNestingDepth_def

lemmas store_defs =
  store_member_def field_of_key_def field_name_def store_string_def store_bool_def
  store_strings_def type_error_def json_kind_def saveError_def in_range_def byte_def
  char_of_eq_iff_nat

subsection \<open>What VerifyToken does with a non-empty token\<close>

lemma VerifyToken_nonempty:
  "tkn \<noteq> [] \<Longrightarrow>
   VerifyToken syntaxMsg c tkn net =
     (case HTTPClient c net apiURL (form_of c tkn) of
        (PostError err, net') \<Rightarrow>
          (Response_zero\<lparr>ErrorCodes := ErrorCodes Response_zero @ [Error err]\<rparr>, net')
      | (ReadError err, net') \<Rightarrow>
          (Response_zero\<lparr>ErrorCodes := ErrorCodes Response_zero @ [Error err]\<rparr>, net')
      | (Body body, net') \<Rightarrow>
          (case json_Unmarshal body Response_zero of
             (Some err, response') \<Rightarrow>
               (response'\<lparr>ErrorCodes :=
                   ErrorCodes response' @ [json_error_Error syntaxMsg body err]\<rparr>, net')
           | (None, response') \<Rightarrow> (response', net')))"
  unfolding VerifyToken_def form_of_def Let_def
  by (simp split del: if_split cong: if_cong)

lemma VerifyToken_call:
  "tkn \<noteq> [] \<Longrightarrow>
   VerifyToken syntaxMsg c tkn net =
     (case fst (HTTPClient c net apiURL (form_of c tkn)) of
        PostError err \<Rightarrow>
          (Response_zero\<lparr>ErrorCodes := [Error err]\<rparr>,
           snd (HTTPClient c net apiURL (form_of c tkn)))
      | ReadError err \<Rightarrow>
          (Response_zero\<lparr>ErrorCodes := [Error err]\<rparr>,
           snd (HTTPClient c net apiURL (form_of c tkn)))
      | Body body \<Rightarrow>
          (case json_Unmarshal body Response_zero of
             (Some err, response') \<Rightarrow>
               (response'\<lparr>ErrorCodes :=
                   ErrorCodes response' @ [json_error_Error syntaxMsg body err]\<rparr>,
                snd (HTTPClient c net apiURL (form_of c tkn)))
           | (None, response') \<Rightarrow>
               (response', snd (HTTPClient c net apiURL (form_of c tkn)))))"
  by (cases "HTTPClient c net apiURL (form_of c tkn)")
     (simp add: VerifyToken_nonempty Response_zero_sel
        split: PostOutcome.split prod.split option.split)


lemma form_of_cases:
  "form_of c tkn =
     [(''secret'', [secret c]), (''response'', [tkn])]
       @ (if RemoteIP c \<noteq> [] then [(''remoteip'', [RemoteIP c])] else [])
       @ (if SiteKey c \<noteq> [] then [(''sitekey'', [SiteKey c])] else [])"
  by (simp add: form_of_def Values_Add_def)

lemma VerifyToken_FailureHandler [simp]:
  "VerifyToken syntaxMsg (c\<lparr>FailureHandler := f\<rparr>) tkn net = VerifyToken syntaxMsg c tkn net"
  by (simp add: VerifyToken_def Let_def split del: if_split cong: if_cong)

lemma SiteVerify_FailureHandler [simp]:
  "SiteVerify syntaxMsg (c\<lparr>FailureHandler := f\<rparr>) r net = SiteVerify syntaxMsg c r net"
  by (simp add: SiteVerify_def split: prod.split option.split)

lemma Get_WithValue:
  "Get (WithContext r (WithValue (Ctx r) ResponseContextKey (AResponse v))) = (v, True)"
  by (simp add: Get_def WithContext_def WithValue_def Context_Value_def)

subsection \<open>What the redirect-following client sends\<close>




lemma http_PostForm_answering:
  "http_PostForm stopped (ex_answering body) net url form
   = (Body body, net @ [Sent ''POST'' url (Some form)])"
  by (simp add: http_PostForm_def eval_nat_numeral ex_answering_def redirectBehavior_def
        read_body_def)



text \<open>
  The failures before decoding leave the zero verdict with one error code: the transport's
  error, or the error of reading the body. So does a body that is not JSON.
\<close>

lemma VerifyToken_transport_failure:
  "tkn \<noteq> [] \<Longrightarrow> fst (HTTPClient c net apiURL (form_of c tkn)) = PostError err \<Longrightarrow>
   fst (VerifyToken syntaxMsg c tkn net) = Response_zero\<lparr>ErrorCodes := [Error err]\<rparr>"
  by (simp add: VerifyToken_call)

lemma VerifyToken_read_failure:
  "tkn \<noteq> [] \<Longrightarrow> fst (HTTPClient c net apiURL (form_of c tkn)) = ReadError err \<Longrightarrow>
   fst (VerifyToken syntaxMsg c tkn net) = Response_zero\<lparr>ErrorCodes := [Error err]\<rparr>"
  by (simp add: VerifyToken_call)

lemma VerifyToken_syntax_error:
  "tkn \<noteq> [] \<Longrightarrow> fst (HTTPClient c net apiURL (form_of c tkn)) = Body body \<Longrightarrow>
   json_parse body = None \<Longrightarrow>
   fst (VerifyToken syntaxMsg c tkn net) = Response_zero\<lparr>ErrorCodes := [syntaxMsg body]\<rparr>"
  by (simp add: VerifyToken_call json_Unmarshal_def json_error_Error_def Response_zero_sel)

lemma VerifyToken_decode_error_appended:
  "tkn \<noteq> [] \<Longrightarrow> fst (HTTPClient c net apiURL (form_of c tkn)) = Body body \<Longrightarrow>
   json_Unmarshal body Response_zero = (Some err, response') \<Longrightarrow>
   fst (VerifyToken syntaxMsg c tkn net)
     = response'\<lparr>ErrorCodes := ErrorCodes response' @ [json_error_Error syntaxMsg body err]\<rparr>"
  by (simp add: VerifyToken_call)

lemma VerifyToken_decoded_verbatim:
  "tkn \<noteq> [] \<Longrightarrow> fst (HTTPClient c net apiURL (form_of c tkn)) = Body body \<Longrightarrow>
   json_Unmarshal body Response_zero = (None, response') \<Longrightarrow>
   fst (VerifyToken syntaxMsg c tkn net) = response'"
  by (simp add: VerifyToken_call)

subsection \<open>Decoding the three bodies of the examples\<close>

lemma unquote_plain: "plain s \<Longrightarrow> unquote s = Some s"
  by (induction s) simp_all

lemma lex_run_plain:
  "plain s \<Longrightarrow> lex_run (LStr raw) (s @ rest) = lex_run (LStr (rev s @ raw)) rest"
  by (induction s arbitrary: raw) (simp_all add: lex_step_def)

lemma lex_success_body:
  \<open>plain T \<Longrightarrow> plain H \<Longrightarrow>
   lex_run LIdle (''{"success":true,"challenge_ts":"'' @ T @ ''","hostname":"'' @ H @ ''"}'')
   = Some [TLBrace, TStr ''success'', TColon, TTrue, TComma, TStr ''challenge_ts'', TColon,
           TStr T, TComma, TStr ''hostname'', TColon, TStr H, TRBrace]\<close>
  by (simp add: scan_defs lex_run_plain unquote_plain)

lemma parse_success_body:
  \<open>plain T \<Longrightarrow> plain H \<Longrightarrow>
   json_parse (''{"success":true,"challenge_ts":"'' @ T @ ''","hostname":"'' @ H @ ''"}'')
   = Some (JObject [(''success'', JBool True), (''challenge_ts'', JString T),
                    (''hostname'', JString H)])\<close>
  by (simp add: json_parse_def lex_success_body[simplified] parse_defs)

lemma Unmarshal_success_body:
  \<open>plain T \<Longrightarrow> plain H \<Longrightarrow>
   json_Unmarshal (''{"success":true,"challenge_ts":"'' @ T @ ''","hostname":"'' @ H @ ''"}'')
     Response_zero
   = (None, \<lparr>ChallengeTS = T, Hostname = H, ErrorCodes = [], Success = True, Credit = False\<rparr>)\<close>
  by (simp add: json_Unmarshal_def parse_success_body[simplified] store_defs Response_zero_def)

lemma parse_failure_body:
  \<open>json_parse ''{"success":false,"error-codes":["invalid-input-response"]}''
   = Some (JObject [(''success'', JBool False),
                    (''error-codes'', JArray [JString ''invalid-input-response''])])\<close>
  by (simp add: json_parse_def scan_defs parse_defs)

lemma Unmarshal_failure_body:
  \<open>json_Unmarshal ''{"success":false,"error-codes":["invalid-input-response"]}'' Response_zero
   = (None, \<lparr>ChallengeTS = [], Hostname = [], ErrorCodes = [''invalid-input-response''],
            Success = False, Credit = False\<rparr>)\<close>
  by (simp add: json_Unmarshal_def parse_failure_body store_defs Response_zero_def)

lemma parse_mistyped_body:
  \<open>json_parse ''{"success":true,"hostname":5}''
   = Some (JObject [(''success'', JBool True), (''hostname'', JNumber ''5'')])\<close>
  by (simp add: json_parse_def scan_defs parse_defs)

lemma Unmarshal_mistyped_body:
  \<open>json_Unmarshal ''{"success":true,"hostname":5}'' Response_zero
   = (Some (UnmarshalTypeError ''number'' ''string'' ''Response'' ''hostname''),
      \<lparr>ChallengeTS = [], Hostname = [], ErrorCodes = [], Success = True, Credit = False\<rparr>)\<close>
  by (simp add: json_Unmarshal_def parse_mistyped_body store_defs Response_zero_def)


lemma request_of_simps [simp]:
  "Ctx (request_of p ctx) = ctx"
  "ParseMultipartForm (request_of p ctx) m = p"
  "(request_of p ctx)\<lparr>Ctx := ctx'\<rparr> = request_of p ctx'"
  by (simp_all add: request_of_def)

lemma New_simps [simp]:
  "HTTPClient (New t s) = t"
  "FailureHandler (New t s) = Some DefaultFailureHandler"
  "RemoteIP (New t s) = []"
  "SiteKey (New t s) = []"
  "secret (New t s) = s"
  by (simp_all add: New_def)

lemma ex_verdict_simps [simp]:
  "Success ex_accepted" "\<not> Success ex_rejected"
  by (simp_all add: ex_accepted_def ex_rejected_def)

lemma Unmarshal_ex_accepting:
  \<open>json_Unmarshal ''{"success":true,"challenge_ts":"T","hostname":"H"}'' Response_zero
   = (None, ex_accepted)\<close>
  using Unmarshal_success_body [of "''T''" "''H''"]
  by (simp add: byte_def ex_accepted_def)

subsection \<open>The middleware on a body with a mistyped field\<close>

lemma SiteVerify_ex_mistyped:
  "SiteVerify syntaxMsg (New ex_mistyped s) (request_of (ex_urlencoded ''tok'') ctx) net
   = (\<lparr>ChallengeTS = [], Hostname = [],
       ErrorCodes =
         [''json: cannot unmarshal number into Go struct field Response.hostname of type string''],
       Success = True, Credit = False\<rparr>,
      net @ [Sent ''POST'' apiURL (Some [(''secret'', [s]), (''response'', [''tok''])])])"
  by (simp add: SiteVerify_def getFormValue_def Values_Get_def VerifyToken_nonempty
        form_of_cases New_def request_of_def ex_urlencoded_def ex_mistyped_def
        http_PostForm_answering Unmarshal_mistyped_body json_error_Error_def)

lemma Handler_ex_mistyped_serves_inner:
  "fst (Handler syntaxMsg (New ex_mistyped s) inner w (request_of (ex_urlencoded ''tok'') ctx) net)
   = inner w
       (WithContext (request_of (ex_urlencoded ''tok'') ctx)
          (WithValue ctx ResponseContextKey
             (AResponse
                \<lparr>ChallengeTS = [], Hostname = [],
                 ErrorCodes =
                   [''json: cannot unmarshal number into Go struct field Response.hostname of type string''],
                 Success = True, Credit = False\<rparr>)))"
  by (simp add: Handler_def SiteVerify_ex_mistyped Let_def)

section \<open>The claims\<close>

text \<open>
  C1. For every client configuration, \<open>VerifyToken\<close> on the empty token returns a verdict
  with \<open>Success = False\<close> and exactly one error code, the text \<open>tkn is empty\<close>; it sends
  nothing (the network is left as it was) and does not depend on the HTTP client.
\<close>

theorem VerifyToken_empty_token:
  "VerifyToken syntaxMsg c [] net = (Response_zero\<lparr>ErrorCodes := [''tkn is empty'']\<rparr>, net)
   \<and> Success (fst (VerifyToken syntaxMsg c [] net)) = False
   \<and> length (ErrorCodes (fst (VerifyToken syntaxMsg c [] net))) = 1
   \<and> snd (VerifyToken syntaxMsg c [] net) = net
   \<and> VerifyToken syntaxMsg (c\<lparr>HTTPClient := t\<rparr>) [] net = VerifyToken syntaxMsg c [] net"
  by (simp add: VerifyToken_def Error_def Response_zero_sel)




text \<open>
  C3. A decode failure does not always come with \<open>Success = False\<close>:
  \<open>json.Unmarshal\<close> stores into the named result as it goes and reports a value of the
  wrong type only at the end, and \<open>VerifyToken\<close> returns that result with the error
  appended. When the HTTP client answers with the body \<open>{"success":true,"hostname":5}\<close>,
  the verdict has \<open>Success = True\<close> together with the decoder's error as its only error
  code. (The empty token, a transport failure, a failure to read the body and a body that
  is not JSON all give \<open>Success = False\<close>: see the lemmas on \<open>VerifyToken\<close> above.)
\<close>

theorem VerifyToken_decode_failure_keeps_success:
  "VerifyToken syntaxMsg ((New ex_mistyped s)\<lparr>RemoteIP := ip, SiteKey := k\<rparr>) ''tok'' net
   = (\<lparr>ChallengeTS = [], Hostname = [],
       ErrorCodes =
         [''json: cannot unmarshal number into Go struct field Response.hostname of type string''],
       Success = True, Credit = False\<rparr>,
      net @ [Sent ''POST'' apiURL
               (Some (form_of ((New ex_mistyped s)\<lparr>RemoteIP := ip, SiteKey := k\<rparr>) ''tok''))])"
  by (simp add: VerifyToken_nonempty ex_mistyped_def http_PostForm_answering
        Unmarshal_mistyped_body json_error_Error_def)


text \<open>
  C4. The middleware stores the verdict of \<open>SiteVerify\<close> in the request's context under
  \<open>ResponseContextKey\<close>, whatever the verdict (\<open>Get\<close> finds it in the request that is
  passed on). When \<open>Success\<close> holds it serves the inner handler with that request, and
  the result does not depend on the failure handler; otherwise it serves the configured
  failure handler with the same request, and the result does not depend on the inner
  handler.
\<close>

theorem Handler_dispatch:
  "(case SiteVerify syntaxMsg c r net of
      (v, net') \<Rightarrow>
        (let r' = WithContext r (WithValue (Ctx r) ResponseContextKey (AResponse v)) in
         Get r' = (v, True)
         \<and> (Success v \<longrightarrow>
              Handler syntaxMsg c inner w r net = (inner w r', net')
              \<and> Handler syntaxMsg (c\<lparr>FailureHandler := f\<rparr>) inner w r net
                  = Handler syntaxMsg c inner w r net)
         \<and> (\<not> Success v \<longrightarrow>
              (\<forall>fh. FailureHandler c = Some fh \<longrightarrow>
                     Handler syntaxMsg c inner w r net = (fh w r', net'))
              \<and> Handler syntaxMsg c other w r net = Handler syntaxMsg c inner w r net)))"
  by (simp add: Handler_def Let_def Get_WithValue split: prod.split option.split)

lemma SiteVerify_ex_accepting:
  "SiteVerify ex_syntaxMsg (New ex_accepting ''key'') (request_of (ex_urlencoded ''tok'') []) []
   = (ex_accepted,
      [Sent ''POST'' apiURL (Some [(''secret'', [''key'']), (''response'', [''tok''])])])"
  by (simp add: SiteVerify_def getFormValue_def Values_Get_def VerifyToken_nonempty
        form_of_cases ex_urlencoded_def ex_accepting_def http_PostForm_answering
        Unmarshal_ex_accepting)

lemma SiteVerify_ex_rejecting:
  "SiteVerify ex_syntaxMsg (New ex_rejecting ''key'') (request_of (ex_urlencoded ''tok'') []) []
   = (ex_rejected,
      [Sent ''POST'' apiURL (Some [(''secret'', [''key'']), (''response'', [''tok''])])])"
  by (simp add: SiteVerify_def getFormValue_def Values_Get_def VerifyToken_nonempty
        form_of_cases ex_urlencoded_def ex_rejecting_def http_PostForm_answering
        Unmarshal_failure_body ex_rejected_def)

theorem Handler_dispatch_witness:
  "Success ex_accepted
   \<and> Handler ex_syntaxMsg (New ex_accepting ''key'') ex_inner ex_writer
        (request_of (ex_urlencoded ''tok'') []) []
      = (ex_inner ex_writer
           (request_of (ex_urlencoded ''tok'') [(ResponseContextKey, AResponse ex_accepted)]),
         [Sent ''POST'' apiURL (Some [(''secret'', [''key'']), (''response'', [''tok''])])])
   \<and> Get (request_of (ex_urlencoded ''tok'') [(ResponseContextKey, AResponse ex_accepted)])
      = (ex_accepted, True)
   \<and> Success ex_rejected = False
   \<and> FailureHandler (New ex_rejecting ''key'') = Some DefaultFailureHandler
   \<and> Handler ex_syntaxMsg (New ex_rejecting ''key'') ex_inner ex_writer
        (request_of (ex_urlencoded ''tok'') []) []
      = (DefaultFailureHandler ex_writer
           (request_of (ex_urlencoded ''tok'') [(ResponseContextKey, AResponse ex_rejected)]),
         [Sent ''POST'' apiURL (Some [(''secret'', [''key'']), (''response'', [''tok''])])])
   \<and> Get (request_of (ex_urlencoded ''tok'') [(ResponseContextKey, AResponse ex_rejected)])
      = (ex_rejected, True)"
  using
    Handler_dispatch [where syntaxMsg = ex_syntaxMsg and c = "New ex_accepting ''key''"
      and r = "request_of (ex_urlencoded ''tok'') []" and net = "[]" and inner = ex_inner
      and w = ex_writer and f = None and other = ex_other]
    Handler_dispatch [where syntaxMsg = ex_syntaxMsg and c = "New ex_rejecting ''key''"
      and r = "request_of (ex_urlencoded ''tok'') []" and net = "[]" and inner = ex_inner
      and w = ex_writer and f = None and other = ex_other]
  by (simp add: SiteVerify_ex_accepting SiteVerify_ex_rejecting Let_def WithContext_def
        WithValue_def)

text \<open>
  C5. \<open>SiteVerify\<close>: when the extraction of the token returns an error, or the
  extracted token is empty, the verdict is the zero verdict (\<open>Success = False\<close>) with one
  error code that describes the failure, nothing is sent and the HTTP client plays no
  part; otherwise the result is that of \<open>VerifyToken\<close> on the extracted token.
\<close>

theorem SiteVerify_cases:
  "(\<forall>tok err. getFormValue r ''h-captcha-response'' = (tok, Some err) \<longrightarrow>
       SiteVerify syntaxMsg c r net = (Response_zero\<lparr>ErrorCodes := [Error err]\<rparr>, net)
       \<and> \<not> Success (fst (SiteVerify syntaxMsg c r net))
       \<and> SiteVerify syntaxMsg (c\<lparr>HTTPClient := t\<rparr>) r net = SiteVerify syntaxMsg c r net)
   \<and> (getFormValue r ''h-captcha-response'' = ([], None) \<longrightarrow>
       SiteVerify syntaxMsg c r net
         = (Response_zero\<lparr>ErrorCodes := [''form[h-captcha-response] is empty'']\<rparr>, net)
       \<and> \<not> Success (fst (SiteVerify syntaxMsg c r net))
       \<and> SiteVerify syntaxMsg (c\<lparr>HTTPClient := t\<rparr>) r net = SiteVerify syntaxMsg c r net)
   \<and> (\<forall>tok. tok \<noteq> [] \<and> getFormValue r ''h-captcha-response'' = (tok, None) \<longrightarrow>
       SiteVerify syntaxMsg c r net = VerifyToken syntaxMsg c tok net)"
  by (simp add: SiteVerify_def Response_zero_sel)

theorem SiteVerify_cases_witness:
  "getFormValue (request_of ex_parse_failure []) ''h-captcha-response''
     = ([], Some (errors_New ''no multipart boundary param in Content-Type''))
   \<and> SiteVerify ex_syntaxMsg (New ex_accepting ''key'') (request_of ex_parse_failure []) []
     = (Response_zero\<lparr>ErrorCodes := [''no multipart boundary param in Content-Type'']\<rparr>, [])
   \<and> getFormValue (request_of ex_other_field []) ''h-captcha-response'' = ([], None)
   \<and> SiteVerify ex_syntaxMsg (New ex_accepting ''key'') (request_of ex_other_field []) []
     = (Response_zero\<lparr>ErrorCodes := [''form[h-captcha-response] is empty'']\<rparr>, [])
   \<and> ''tok'' \<noteq> []
   \<and> getFormValue (request_of (ex_urlencoded ''tok'') []) ''h-captcha-response''
     = (''tok'', None)
   \<and> SiteVerify ex_syntaxMsg (New ex_accepting ''key'') (request_of (ex_urlencoded ''tok'') []) []
     = VerifyToken ex_syntaxMsg (New ex_accepting ''key'') ''tok'' []"
  using
    SiteVerify_cases [where r = "request_of ex_parse_failure []" and syntaxMsg = ex_syntaxMsg
      and c = "New ex_accepting ''key''" and net = "[]" and t = ex_rejecting]
    SiteVerify_cases [where r = "request_of ex_other_field []" and syntaxMsg = ex_syntaxMsg
      and c = "New ex_accepting ''key''" and net = "[]" and t = ex_rejecting]
    SiteVerify_cases [where r = "request_of (ex_urlencoded ''tok'') []"
      and syntaxMsg = ex_syntaxMsg and c = "New ex_accepting ''key''" and net = "[]"
      and t = ex_rejecting]
  by (simp add: getFormValue_def Values_Get_def Error_def ex_parse_failure_def
        ex_other_field_def ex_urlencoded_def)


text \<open>
  C6. Provided parsing reports no error other than \<open>ErrNotMultipart\<close> (which is not an
  extraction error), \<open>getFormValue\<close> returns no error and takes the field from the first
  source that holds any field at all: \<open>Form\<close>, then \<open>PostForm\<close>, then the values of the
  multipart form; the value is the first one stored under the key, or the empty string.
  When none of the three carries the key, the result is the empty string and no error.
\<close>

theorem getFormValue_order:
  "Err (ParseMultipartForm r PostMaxMemory) = None
     \<or> Err (ParseMultipartForm r PostMaxMemory) = Some ErrNotMultipart \<Longrightarrow>
   snd (getFormValue r key) = None
   \<and> (Form (ParseMultipartForm r PostMaxMemory) \<noteq> [] \<longrightarrow>
        fst (getFormValue r key) = Values_Get (Form (ParseMultipartForm r PostMaxMemory)) key)
   \<and> (Form (ParseMultipartForm r PostMaxMemory) = []
        \<and> PostForm (ParseMultipartForm r PostMaxMemory) \<noteq> [] \<longrightarrow>
        fst (getFormValue r key) = Values_Get (PostForm (ParseMultipartForm r PostMaxMemory)) key)
   \<and> (Form (ParseMultipartForm r PostMaxMemory) = []
        \<and> PostForm (ParseMultipartForm r PostMaxMemory) = [] \<longrightarrow>
        fst (getFormValue r key) =
          (case MultipartForm (ParseMultipartForm r PostMaxMemory) of
             None \<Rightarrow> []
           | Some m \<Rightarrow> Values_Get (Value m) key))
   \<and> (map_of (Form (ParseMultipartForm r PostMaxMemory)) key = None
        \<and> map_of (PostForm (ParseMultipartForm r PostMaxMemory)) key = None
        \<and> (\<forall>m. MultipartForm (ParseMultipartForm r PostMaxMemory) = Some m
               \<longrightarrow> map_of (Value m) key = None)
        \<longrightarrow> getFormValue r key = ([], None))"
  by (auto simp: getFormValue_def Let_def Values_Get_def split: option.splits list.splits)

theorem getFormValue_order_witness:
  "Err (ex_urlencoded ''tok'') = Some ErrNotMultipart
   \<and> Form (ex_urlencoded ''tok'') \<noteq> []
   \<and> getFormValue (request_of (ex_urlencoded ''tok'') []) ''h-captcha-response''
       = (''tok'', None)
   \<and> Err ex_postform_only = None
   \<and> Form ex_postform_only = [] \<and> PostForm ex_postform_only \<noteq> []
   \<and> getFormValue (request_of ex_postform_only []) ''h-captcha-response'' = (''p1'', None)
   \<and> Form ex_multipart_only = [] \<and> PostForm ex_multipart_only = []
   \<and> getFormValue (request_of ex_multipart_only []) ''h-captcha-response''
       = (''abc123'', None)
   \<and> map_of (Form ex_other_field) ''h-captcha-response'' = None
   \<and> map_of (PostForm ex_other_field) ''h-captcha-response'' = None
   \<and> MultipartForm ex_other_field = None
   \<and> getFormValue (request_of ex_other_field []) ''h-captcha-response'' = ([], None)"
  using
    getFormValue_order [where r = "request_of (ex_urlencoded ''tok'') []"
      and key = "''h-captcha-response''"]
    getFormValue_order [where r = "request_of ex_postform_only []"
      and key = "''h-captcha-response''"]
    getFormValue_order [where r = "request_of ex_multipart_only []"
      and key = "''h-captcha-response''"]
    getFormValue_order [where r = "request_of ex_other_field []"
      and key = "''h-captcha-response''"]
  by (simp add: getFormValue_def Values_Get_def ex_urlencoded_def ex_postform_only_def
        ex_multipart_only_def ex_other_field_def)

text \<open>
  C7. The body \<open>{"success":true,"challenge_ts":"T","hostname":"H"}\<close>, for plain texts
  \<open>T\<close> and \<open>H\<close>, decodes without error into the verdict with \<open>Success = True\<close>, challenge
  timestamp \<open>T\<close>, hostname \<open>H\<close> and no error codes; the body
  \<open>{"success":false,"error-codes":["invalid-input-response"]}\<close> decodes into
  \<open>Success = False\<close> with that one error code. \<open>VerifyToken\<close> returns these verdicts as
  they are when the HTTP client answers with these bodies.
\<close>

theorem decode_verdict_bodies:
  \<open>plain T \<and> plain H \<and> tkn \<noteq> [] \<Longrightarrow>
   json_Unmarshal (''{"success":true,"challenge_ts":"'' @ T @ ''","hostname":"'' @ H @ ''"}'')
       Response_zero
     = (None, \<lparr>ChallengeTS = T, Hostname = H, ErrorCodes = [], Success = True, Credit = False\<rparr>)
   \<and> json_Unmarshal ''{"success":false,"error-codes":["invalid-input-response"]}'' Response_zero
     = (None, \<lparr>ChallengeTS = [], Hostname = [], ErrorCodes = [''invalid-input-response''],
              Success = False, Credit = False\<rparr>)
   \<and> (fst (HTTPClient c net apiURL (form_of c tkn))
         = Body (''{"success":true,"challenge_ts":"'' @ T @ ''","hostname":"'' @ H @ ''"}'')
       \<longrightarrow> fst (VerifyToken syntaxMsg c tkn net)
           = \<lparr>ChallengeTS = T, Hostname = H, ErrorCodes = [], Success = True, Credit = False\<rparr>)
   \<and> (fst (HTTPClient c net apiURL (form_of c tkn))
         = Body ''{"success":false,"error-codes":["invalid-input-response"]}''
       \<longrightarrow> fst (VerifyToken syntaxMsg c tkn net)
           = \<lparr>ChallengeTS = [], Hostname = [], ErrorCodes = [''invalid-input-response''],
              Success = False, Credit = False\<rparr>)\<close>
  by (simp add: Unmarshal_success_body[simplified] Unmarshal_failure_body VerifyToken_call)

theorem decode_verdict_bodies_witness:
  \<open>plain ''T'' \<and> plain ''H'' \<and> ''tok'' \<noteq> []
   \<and> json_Unmarshal ''{"success":true,"challenge_ts":"T","hostname":"H"}'' Response_zero
       = (None, \<lparr>ChallengeTS = ''T'', Hostname = ''H'', ErrorCodes = [], Success = True,
                Credit = False\<rparr>)
   \<and> fst (HTTPClient (New ex_accepting ''key'') [] apiURL
            (form_of (New ex_accepting ''key'') ''tok''))
       = Body ''{"success":true,"challenge_ts":"T","hostname":"H"}''
   \<and> fst (VerifyToken ex_syntaxMsg (New ex_accepting ''key'') ''tok'' [])
       = \<lparr>ChallengeTS = ''T'', Hostname = ''H'', ErrorCodes = [], Success = True,
          Credit = False\<rparr>
   \<and> fst (HTTPClient (New ex_rejecting ''key'') [] apiURL
            (form_of (New ex_rejecting ''key'') ''tok''))
       = Body ''{"success":false,"error-codes":["invalid-input-response"]}''
   \<and> fst (VerifyToken ex_syntaxMsg (New ex_rejecting ''key'') ''tok'' [])
       = \<lparr>ChallengeTS = [], Hostname = [], ErrorCodes = [''invalid-input-response''],
          Success = False, Credit = False\<rparr>\<close>
  using
    decode_verdict_bodies [where T = "''T''" and H = "''H''" and tkn = "''tok''"
      and c = "New ex_accepting ''key''" and net = "[]" and syntaxMsg = ex_syntaxMsg]
    decode_verdict_bodies [where T = "''T''" and H = "''H''" and tkn = "''tok''"
      and c = "New ex_rejecting ''key''" and net = "[]" and syntaxMsg = ex_syntaxMsg]
  by (simp add: byte_def ex_accepting_def ex_rejecting_def http_PostForm_answering)

text \<open>
  C8. \<open>New\<close> installs \<open>DefaultFailureHandler\<close> as the failure handler. On a response
  writer whose status is not yet written it writes status 429 and, as the whole body, the
  status text \<open>Too Many Requests\<close> followed by a newline.
\<close>

theorem DefaultFailureHandler_TooManyRequests:
  "Status w = None \<Longrightarrow>
   Status (DefaultFailureHandler w r) = Some 429
   \<and> Written (DefaultFailureHandler w r) = Written w @ ''Too Many Requests'' @ [CHR 0x0A]
   \<and> FailureHandler (New DefaultClient s) = Some DefaultFailureHandler"
  by (simp add: DefaultFailureHandler_def http_Error_def WriteHeader_def Write_def Let_def
        StatusText_def StatusTooManyRequests_def New_def)

theorem DefaultFailureHandler_TooManyRequests_witness:
  "Status ex_writer = None
   \<and> Status (DefaultFailureHandler ex_writer (request_of ex_no_form [])) = Some 429
   \<and> Written (DefaultFailureHandler ex_writer (request_of ex_no_form []))
       = ''Too Many Requests'' @ [CHR 0x0A]"
  using DefaultFailureHandler_TooManyRequests [where w = ex_writer
      and r = "request_of ex_no_form []" and DefaultClient = ex_accepting and s = "''key''"]
  by (simp add: ex_writer_def)

text \<open>
  C9. \<open>Get\<close> returns the zero verdict and \<open>False\<close> when the context has nothing under
  \<open>ResponseContextKey\<close>, and when what it has there is not a \<open>Response\<close>; it returns the
  stored verdict and \<open>True\<close> when the context holds a \<open>Response\<close> there.
\<close>

theorem Get_found:
  "(Context_Value (Ctx r) ResponseContextKey = ANil \<longrightarrow> Get r = (Response_zero, False))
   \<and> ((\<forall>v. Context_Value (Ctx r) ResponseContextKey \<noteq> AResponse v)
        \<longrightarrow> Get r = (Response_zero, False))
   \<and> (\<forall>v. Context_Value (Ctx r) ResponseContextKey = AResponse v \<longrightarrow> Get r = (v, True))"
  by (auto simp: Get_def Let_def split: any.splits)

theorem Get_found_witness:
  "Context_Value [] ResponseContextKey = ANil
   \<and> Get (request_of ex_no_form []) = (Response_zero, False)
   \<and> Context_Value [(ResponseContextKey, AString ''verdict'')] ResponseContextKey
       = AString ''verdict''
   \<and> Get (request_of ex_no_form [(ResponseContextKey, AString ''verdict'')])
       = (Response_zero, False)
   \<and> Context_Value [(ResponseContextKey, AResponse ex_rejected)] ResponseContextKey
       = AResponse ex_rejected
   \<and> Get (request_of ex_no_form [(ResponseContextKey, AResponse ex_rejected)])
       = (ex_rejected, True)"
  using
    Get_found [where r = "request_of ex_no_form []"]
    Get_found [where r = "request_of ex_no_form [(ResponseContextKey, AString ''verdict'')]"]
    Get_found [where r = "request_of ex_no_form [(ResponseContextKey, AResponse ex_rejected)]"]
  by (simp add: Context_Value_def)

text \<open>
  C10. When verification fails and the client's \<open>FailureHandler\<close> is nil, the middleware
  serves no handler: the response writer is returned as it was, and the result does not
  depend on the inner handler.
\<close>

theorem Handler_nil_FailureHandler:
  "FailureHandler c = None \<and> \<not> Success (fst (SiteVerify syntaxMsg c r net)) \<Longrightarrow>
   Handler syntaxMsg c inner w r net = (w, snd (SiteVerify syntaxMsg c r net))
   \<and> Handler syntaxMsg c other w r net = Handler syntaxMsg c inner w r net"
  by (cases "SiteVerify syntaxMsg c r net") (simp add: Handler_def Let_def)

theorem Handler_nil_FailureHandler_witness:
  "FailureHandler ((New ex_accepting ''key'')\<lparr>FailureHandler := None\<rparr>) = None
   \<and> Success (fst (SiteVerify ex_syntaxMsg ((New ex_accepting ''key'')\<lparr>FailureHandler := None\<rparr>)
         (request_of ex_no_form []) [])) = False
   \<and> Handler ex_syntaxMsg ((New ex_accepting ''key'')\<lparr>FailureHandler := None\<rparr>) ex_inner
        ex_writer (request_of ex_no_form []) []
      = (ex_writer, [])"
  using Handler_nil_FailureHandler [where c = "(New ex_accepting ''key'')\<lparr>FailureHandler := None\<rparr>"
      and syntaxMsg = ex_syntaxMsg and r = "request_of ex_no_form []" and net = "[]"
      and inner = ex_inner and other = ex_other and w = ex_writer]
  by (simp add: SiteVerify_def getFormValue_def ex_no_form_def Response_zero_sel)

end
